theory Spec2Isabelle
  imports Main "HOL-Library.Sublist"
begin

section \<open>Byte strings and errors\<close>

text \<open>
  Go strings and byte slices are sequences of bytes; a \<^typ>\<open>char\<close> is one byte, so both
  are modelled as \<^typ>\<open>string\<close>. A Go \<open>error\<close> value is either the sentinel
  \<open>age.ErrIncorrectIdentity\<close>, or some other error, kept with its message, or an
  error made by \<open>fmt.Errorf\<close> from a format and an error; the Go \<open>nil\<close> error is
  \<^term>\<open>None\<close> of \<open>error option\<close>.
\<close>

type_synonym bytes = string

datatype error = ErrIncorrectIdentity | Error string | FmtError string error

section \<open>Process exit, readers and the library the command line calls\<close>

text \<open>
  \<open>errorf\<close> and \<open>errorWithHint\<close> print a message and end the process (the source
  writes \<open>panic("unreachable")\<close> after a call), so a call is the value
  \<^term>\<open>Exit\<close> carrying what was printed, and the code after it does not run.
\<close>

datatype fmt_arg = ArgString string | ArgError error

datatype fatal = Errorf string "fmt_arg list" | ErrorWithHint string "string list"

datatype 'a proc = Exit fatal | Ret 'a

text \<open>
  An \<open>io.Reader\<close> over a finite stream: the bytes it delivers and the error that ends
  them, \<^term>\<open>None\<close> for \<open>io.EOF\<close>. \<open>bufio.Reader.Peek n\<close> returns the first
  \<open>n\<close> bytes, fewer when the stream is shorter; the source drops its error.
  The output is the sequence of bytes written to it so far, and a write to it does not
  fail: \<open>io.Copy\<close> into the output appends all the bytes of the reader and returns
  the reader's error.
\<close>

record reader =
  rdata :: bytes
  rerr :: "error option"

definition Peek :: "reader \<Rightarrow> nat \<Rightarrow> bytes" where
  "Peek rr n = take n (rdata rr)"

definition io_Copy :: "bytes \<Rightarrow> reader \<Rightarrow> bytes \<times> error option" where
  "io_Copy out r = (out @ rdata r, rerr r)"

text \<open>The struct \<open>age.Stanza\<close>.\<close>

record stanza =
  Type :: string
  Args :: "string list"
  Body :: bytes

text \<open>
  The identities the command line builds: its own two, and those of the library (parsed
  from a file, or a plugin's), of which the model knows nothing but what \<open>Unwrap\<close>
  does with them.
\<close>

datatype 'i identity = RejectScryptIdentity | LazyScryptIdentity | LibIdentity 'i

text \<open>
  The packages \<open>age\<close>, \<open>armor\<close> and \<open>plugin\<close> and the helpers of the command in other
  files are parameters: \<open>'w\<close> is the state of everything outside (terminal, files,
  plugins), which each call may read and change.
\<close>

record ('i, 'w) library =
  age_Decrypt :: "reader \<Rightarrow> 'i identity list \<Rightarrow> 'w \<Rightarrow> (error + reader) proc \<times> 'w"
  armor_NewReader :: "reader \<Rightarrow> reader"
  parseIdentitiesFile :: "string \<Rightarrow> 'w \<Rightarrow> (error + 'i list) \<times> 'w"
  plugin_NewIdentityWithoutData :: "string \<Rightarrow> 'w \<Rightarrow> (error + 'i) \<times> 'w"

section \<open>Decryption from the command line\<close>

definition crlfMangledIntro :: bytes where
  "crlfMangledIntro = ''age-encryption.org/v1'' @ [CHR 0x0D]"

definition utf16MangledIntro :: bytes where
  "utf16MangledIntro =
     [CHR 0xFF, CHR 0xFE] @
     [CHR ''a'', CHR 0x00, CHR ''g'', CHR 0x00, CHR ''e'', CHR 0x00, CHR ''-'', CHR 0x00,
      CHR ''e'', CHR 0x00, CHR ''n'', CHR 0x00, CHR ''c'', CHR 0x00, CHR ''r'', CHR 0x00,
      CHR ''y'', CHR 0x00, CHR ''p'', CHR 0x00]"

text \<open>
  Modelled from the spec: the constant \<open>armor.Header\<close> of the armor package, which is
  not among the sources; section 4.I gives the BEGIN marker.
\<close>

definition armor_Header :: bytes where
  "armor_Header = ''-----BEGIN AGE ENCRYPTED FILE-----''"

definition invalid_header_intro :: fatal where
  "invalid_header_intro =
     ErrorWithHint ''invalid header intro''
       [''it looks like this file was corrupted by PowerShell redirection'',
        ''consider using -o or -a to encrypt files in PowerShell'']"

text \<open>
  \<open>decrypt\<close>: the exit message if the process ended (\<^term>\<open>None\<close> when the function
  returned), the output after it, and the state outside.
\<close>

definition decrypt ::
  "('i, 'w) library \<Rightarrow> 'i identity list \<Rightarrow> reader \<Rightarrow> bytes \<Rightarrow> 'w \<Rightarrow>
   (fatal option \<times> bytes) \<times> 'w" where
  "decrypt lib identities inp out w =
     (let rr = inp; intro = Peek rr (length crlfMangledIntro) in
      if intro = crlfMangledIntro \<or> intro = utf16MangledIntro then
        ((Some invalid_header_intro, out), w)
      else
        let start = Peek rr (length armor_Header);
            src = (if start = armor_Header then armor_NewReader lib rr else rr)
        in case age_Decrypt lib src identities w of
             (Exit x, w') \<Rightarrow> ((Some x, out), w')
           | (Ret (Inl e), w') \<Rightarrow> ((Some (Errorf ''%v'' [ArgError e]), out), w')
           | (Ret (Inr r), w') \<Rightarrow>
               (case io_Copy out r of
                  (out', Some e) \<Rightarrow> ((Some (Errorf ''%v'' [ArgError e]), out'), w')
                | (out', None) \<Rightarrow> ((None, out'), w')))"

text \<open>\<open>rejectScryptIdentity.Unwrap\<close>.\<close>

definition passphrase_with_identities :: fatal where
  "passphrase_with_identities =
     ErrorWithHint
       ''file is passphrase-encrypted but identities were specified with -i/--identity or -j''
       [''remove all -i/--identity/-j flags to decrypt passphrase-encrypted files'']"

definition rejectScryptIdentity_Unwrap :: "stanza list \<Rightarrow> (error + bytes) proc" where
  "rejectScryptIdentity_Unwrap stanzas =
     (if length stanzas \<noteq> 1 \<or> Type (stanzas ! 0) \<noteq> ''scrypt''
      then Ret (Inl ErrIncorrectIdentity)
      else Exit passphrase_with_identities)"

text \<open>
  \<open>decryptNotPass\<close>. An \<open>identityFlag\<close> is its \<open>Type\<close> and its \<open>Value\<close>. The loop
  over the flags appends to the identities; a flag of another type than \<open>i\<close> and
  \<open>j\<close> matches no case of the switch.
\<close>

datatype identityFlag = IdentityFlag string string

fun flag_identities ::
  "('i, 'w) library \<Rightarrow> identityFlag list \<Rightarrow> 'i identity list \<Rightarrow> 'w \<Rightarrow>
   'i identity list proc \<times> 'w" where
  "flag_identities lib [] identities w = (Ret identities, w)"
| "flag_identities lib (IdentityFlag t v # flags) identities w =
     (if t = ''i'' then
        (case parseIdentitiesFile lib v w of
           (Inl e, w') \<Rightarrow> (Exit (Errorf ''reading %q: %v'' [ArgString v, ArgError e]), w')
         | (Inr ids, w') \<Rightarrow> flag_identities lib flags (identities @ map LibIdentity ids) w')
      else if t = ''j'' then
        (case plugin_NewIdentityWithoutData lib v w of
           (Inl e, w') \<Rightarrow> (Exit (Errorf ''initializing %q: %v'' [ArgString v, ArgError e]), w')
         | (Inr i, w') \<Rightarrow> flag_identities lib flags (identities @ [LibIdentity i]) w')
      else flag_identities lib flags identities w)"

definition decryptNotPass ::
  "('i, 'w) library \<Rightarrow> identityFlag list \<Rightarrow> reader \<Rightarrow> bytes \<Rightarrow> 'w \<Rightarrow>
   (fatal option \<times> bytes) \<times> 'w" where
  "decryptNotPass lib flags inp out w =
     (case flag_identities lib flags [RejectScryptIdentity] w of
        (Exit x, w') \<Rightarrow> ((Some x, out), w')
      | (Ret identities, w') \<Rightarrow> decrypt lib identities inp out w')"

text \<open>\<open>decryptPass\<close>.\<close>

definition decryptPass ::
  "('i, 'w) library \<Rightarrow> reader \<Rightarrow> bytes \<Rightarrow> 'w \<Rightarrow> (fatal option \<times> bytes) \<times> 'w" where
  "decryptPass lib inp out w = decrypt lib [LazyScryptIdentity] inp out w"

section \<open>The library's \<open>Decrypt\<close>, as far as the command line depends on it\<close>

text \<open>
  What \<open>age.Decrypt\<close> is built from: the header parser, \<open>Unwrap\<close> of the library's
  identities and of \<open>LazyScryptIdentity\<close> (a type of the command, in a file that is not
  among the sources), and the opening of the payload (the header's HMAC and the STREAM
  reader). All are parameters.
\<close>

record ('i, 'w) age_parts =
  format_Parse :: "reader \<Rightarrow> error + stanza list \<times> reader"
  identity_Unwrap :: "'i \<Rightarrow> stanza list \<Rightarrow> 'w \<Rightarrow> (error + bytes) proc \<times> 'w"
  lazyScrypt_Unwrap :: "stanza list \<Rightarrow> 'w \<Rightarrow> (error + bytes) proc \<times> 'w"
  payload_Open :: "bytes \<Rightarrow> stanza list \<Rightarrow> reader \<Rightarrow> error + reader"

text \<open>The method \<open>Unwrap\<close> of the interface \<open>age.Identity\<close>, by the identity's type.\<close>

fun Unwrap ::
  "('i, 'w) age_parts \<Rightarrow> 'i identity \<Rightarrow> stanza list \<Rightarrow> 'w \<Rightarrow> (error + bytes) proc \<times> 'w" where
  "Unwrap P RejectScryptIdentity stanzas w = (rejectScryptIdentity_Unwrap stanzas, w)"
| "Unwrap P LazyScryptIdentity stanzas w = lazyScrypt_Unwrap P stanzas w"
| "Unwrap P (LibIdentity i) stanzas w = identity_Unwrap P i stanzas w"

text \<open>
  Modelled from the spec: the loop of \<open>age.Decrypt\<close> over the identities, which is not
  among the sources. Section 4.H: each identity's \<open>Unwrap\<close> receives the stanzas, the
  first file key is taken, and with none the error is "no identity matched any
  recipient"; section 7: the loop recovers from "incorrect identity" only, every other
  error propagates. The identities are tried in the order of the list.
\<close>

fun unwrap_first ::
  "('i identity \<Rightarrow> stanza list \<Rightarrow> 'w \<Rightarrow> (error + bytes) proc \<times> 'w) \<Rightarrow>
   'i identity list \<Rightarrow> stanza list \<Rightarrow> 'w \<Rightarrow> (error + bytes) proc \<times> 'w" where
  "unwrap_first U [] stanzas w =
     (Ret (Inl (Error ''no identity matched any recipient'')), w)"
| "unwrap_first U (i # identities) stanzas w =
     (case U i stanzas w of
        (Exit x, w') \<Rightarrow> (Exit x, w')
      | (Ret (Inl e), w') \<Rightarrow>
          if e = ErrIncorrectIdentity then unwrap_first U identities stanzas w'
          else (Ret (Inl e), w')
      | (Ret (Inr fileKey), w') \<Rightarrow> (Ret (Inr fileKey), w'))"

text \<open>
  Modelled from the spec: \<open>age.Decrypt\<close>, which is not among the sources. Section 4.H:
  read the header, unwrap the file key with the identities, then verify the HMAC and
  start the STREAM reader; sections 4.G and 8 (scrypt exclusivity): a header in which an
  scrypt stanza stands with any other stanza is rejected.
\<close>

definition age_Decrypt_spec ::
  "('i, 'w) age_parts \<Rightarrow> reader \<Rightarrow> 'i identity list \<Rightarrow> 'w \<Rightarrow> (error + reader) proc \<times> 'w" where
  "age_Decrypt_spec P src identities w =
     (case format_Parse P src of
        Inl e \<Rightarrow> (Ret (Inl e), w)
      | Inr (stanzas, payload) \<Rightarrow>
          if list_ex (\<lambda>s. Type s = ''scrypt'') stanzas \<and> length stanzas \<noteq> 1
          then (Ret (Inl (Error ''an scrypt stanza must be the only stanza'')), w)
          else
            (case unwrap_first (Unwrap P) identities stanzas w of
               (Exit x, w') \<Rightarrow> (Exit x, w')
             | (Ret (Inl e), w') \<Rightarrow> (Ret (Inl e), w')
             | (Ret (Inr fileKey), w') \<Rightarrow> (Ret (payload_Open P fileKey stanzas payload), w')))"

text \<open>
  The reader \<open>decrypt\<close> hands to \<open>age.Decrypt\<close> when the intro is not a mangled one,
  and the files the claims call passphrase-encrypted: those whose intro is not mangled
  and whose header, read from that reader, is a single stanza of type \<open>scrypt\<close>.
\<close>

definition decrypt_source :: "('i, 'w) library \<Rightarrow> reader \<Rightarrow> reader" where
  "decrypt_source lib inp =
     (if prefix armor_Header (rdata inp) then armor_NewReader lib inp else inp)"

definition mangled_intro :: "reader \<Rightarrow> bool" where
  "mangled_intro inp \<longleftrightarrow>
     prefix crlfMangledIntro (rdata inp) \<or> prefix utf16MangledIntro (rdata inp)"

definition passphrase_encrypted ::
  "('i, 'w) library \<Rightarrow> ('i, 'w) age_parts \<Rightarrow> reader \<Rightarrow> bool" where
  "passphrase_encrypted lib P inp \<longleftrightarrow>
     \<not> mangled_intro inp \<and>
     (case format_Parse P (decrypt_source lib inp) of
        Inr ([s], payload) \<Rightarrow> Type s = ''scrypt''
      | _ \<Rightarrow> False)"

text \<open>
  A library and the parts of \<open>age.Decrypt\<close> for concrete runs. The state counts the
  calls of \<open>Unwrap\<close> on the library's identities, each of which would give a file key.
  The header parser takes the bytes up to the first \<open>#\<close> for the type of the one
  stanza.
\<close>

definition sample_parts :: "(nat, nat) age_parts" where
  "sample_parts =
     \<lparr>format_Parse = (\<lambda>r.
        if rdata r = [] then Inl (Error ''not an age file'')
        else Inr ([\<lparr>Type = takeWhile (\<lambda>c. c \<noteq> CHR ''#'') (rdata r), Args = [], Body = []\<rparr>],
                  r\<lparr>rdata := drop 1 (dropWhile (\<lambda>c. c \<noteq> CHR ''#'') (rdata r))\<rparr>)),
      identity_Unwrap = (\<lambda>i stanzas w. (Ret (Inr ''0123456789abcdef''), Suc w)),
      lazyScrypt_Unwrap = (\<lambda>stanzas w. (Ret (Inl ErrIncorrectIdentity), w)),
      payload_Open = (\<lambda>fileKey stanzas payload. Inr payload)\<rparr>"

definition sample_library :: "(nat, nat) library" where
  "sample_library =
     \<lparr>age_Decrypt = age_Decrypt_spec sample_parts,
      armor_NewReader = (\<lambda>r. r\<lparr>rdata := drop (length armor_Header) (rdata r)\<rparr>),
      parseIdentitiesFile = (\<lambda>v w. if v = [] then (Inl (Error ''no such file''), w) else (Inr [1, 2], w)),
      plugin_NewIdentityWithoutData = (\<lambda>v w. (Inr 3, w))\<rparr>"

section \<open>The armor codec\<close>

text \<open>
  Modelled from the spec: the armor package is not among the sources. Section 4.I: the
  container in base64 (standard alphabet, padded, canonical), wrapped at 64 columns,
  between the BEGIN and the END marker lines.
\<close>

definition armor_Footer :: bytes where
  "armor_Footer = ''-----END AGE ENCRYPTED FILE-----''"

definition b64_alphabet :: string where
  "b64_alphabet = ''ABCDEFGHIJKLMNOPQRSTUVWXYZabcdefghijklmnopqrstuvwxyz0123456789+/''"

definition b64_char :: "nat \<Rightarrow> char" where
  "b64_char i = b64_alphabet ! i"

fun index_of :: "'a \<Rightarrow> 'a list \<Rightarrow> nat option" where
  "index_of x [] = None"
| "index_of x (y # ys) = (if x = y then Some 0 else map_option Suc (index_of x ys))"

definition b64_value :: "char \<Rightarrow> nat option" where
  "b64_value c = index_of c b64_alphabet"

text \<open>
  Modelled from the spec: base64 with the standard alphabet and padding, three bytes to
  four characters.
\<close>

fun base64_encode :: "bytes \<Rightarrow> string" where
  "base64_encode [] = []"
| "base64_encode [a] =
     (let x = (of_char a :: nat)
      in [b64_char (x div 4), b64_char (x mod 4 * 16), CHR ''='', CHR ''=''])"
| "base64_encode [a, b] =
     (let x = (of_char a :: nat); y = (of_char b :: nat)
      in [b64_char (x div 4), b64_char (x mod 4 * 16 + y div 16), b64_char (y mod 16 * 4),
          CHR ''=''])"
| "base64_encode (a # b # c # rest) =
     (let x = (of_char a :: nat); y = (of_char b :: nat); z = (of_char c :: nat)
      in [b64_char (x div 4), b64_char (x mod 4 * 16 + y div 16),
          b64_char (y mod 16 * 4 + z div 64), b64_char (z mod 64)] @ base64_encode rest)"

text \<open>
  Modelled from the spec: decoding of canonical base64. A character outside the
  alphabet, padding anywhere but at the end, a length that is no multiple of four and
  non-zero bits under the padding are rejected.
\<close>

definition decode_quad :: "char \<Rightarrow> char \<Rightarrow> char \<Rightarrow> char \<Rightarrow> bytes option" where
  "decode_quad c1 c2 c3 c4 =
     (case (b64_value c1, b64_value c2, b64_value c3, b64_value c4) of
        (Some v1, Some v2, Some v3, Some v4) \<Rightarrow>
          Some [char_of (v1 * 4 + v2 div 16), char_of (v2 mod 16 * 16 + v3 div 4),
                char_of (v3 mod 4 * 64 + v4)]
      | _ \<Rightarrow> None)"

definition decode_last :: "char \<Rightarrow> char \<Rightarrow> char \<Rightarrow> char \<Rightarrow> bytes option" where
  "decode_last c1 c2 c3 c4 =
     (if c4 = CHR ''='' then
        (if c3 = CHR ''='' then
           (case (b64_value c1, b64_value c2) of
              (Some v1, Some v2) \<Rightarrow>
                if v2 mod 16 = 0 then Some [char_of (v1 * 4 + v2 div 16)] else None
            | _ \<Rightarrow> None)
         else
           (case (b64_value c1, b64_value c2, b64_value c3) of
              (Some v1, Some v2, Some v3) \<Rightarrow>
                if v3 mod 4 = 0
                then Some [char_of (v1 * 4 + v2 div 16), char_of (v2 mod 16 * 16 + v3 div 4)]
                else None
            | _ \<Rightarrow> None))
      else decode_quad c1 c2 c3 c4)"

fun base64_decode :: "string \<Rightarrow> bytes option" where
  "base64_decode [] = Some []"
| "base64_decode (c1 # c2 # c3 # c4 # rest) =
     (if rest = [] then decode_last c1 c2 c3 c4
      else
        (case decode_quad c1 c2 c3 c4 of
           None \<Rightarrow> None
         | Some bs \<Rightarrow> map_option ((@) bs) (base64_decode rest)))"
| "base64_decode _ = None"

text \<open>
  Modelled from the spec: wrapping at 64 columns, and the armored form: the BEGIN line,
  the lines of base64, the END line, each ended by a newline.
\<close>

fun wrap64 :: "string \<Rightarrow> string list" where
  "wrap64 s = (if s = [] then [] else take 64 s # wrap64 (drop 64 s))"

definition newline :: char where
  "newline = CHR 0x0A"

definition armor :: "bytes \<Rightarrow> bytes" where
  "armor b =
     concat (map (\<lambda>l. l @ [newline]) (armor_Header # wrap64 (base64_encode b) @ [armor_Footer]))"

text \<open>
  Modelled from the spec: the armor reader. It takes the BEGIN line, the body lines up to
  the END line and nothing after it; it rejects a body line longer than 64 characters and
  a body that is not canonical base64 (which excludes whitespace and any other
  character outside the alphabet).
\<close>

fun split_lines :: "string \<Rightarrow> string list" where
  "split_lines [] = [[]]"
| "split_lines (c # cs) =
     (if c = newline then [] # split_lines cs
      else (case split_lines cs of [] \<Rightarrow> [[c]] | l # ls \<Rightarrow> (c # l) # ls))"

definition dearmor :: "bytes \<Rightarrow> error + bytes" where
  "dearmor s =
     (case split_lines s of
        [] \<Rightarrow> Inl (Error ''armor: no BEGIN line'')
      | first # rest \<Rightarrow>
          if first \<noteq> armor_Header then Inl (Error ''armor: no BEGIN line'')
          else
            let body = takeWhile (\<lambda>l. l \<noteq> armor_Footer) rest;
                after = dropWhile (\<lambda>l. l \<noteq> armor_Footer) rest
            in if after = [] then Inl (Error ''armor: no END line'')
               else if tl after \<noteq> [[]] then Inl (Error ''armor: data after the END line'')
               else if list_ex (\<lambda>l. length l > 64) body then Inl (Error ''armor: line too long'')
               else
                 (case base64_decode (concat body) of
                    None \<Rightarrow> Inl (Error ''armor: invalid base64'')
                  | Some b \<Rightarrow> Inr b))"


text \<open>
  What \<open>decrypt\<close> does with the reader it hands to \<open>age.Decrypt\<close> (the second half of
  the function).
\<close>

definition decrypt_from ::
  "('i, 'w) library \<Rightarrow> reader \<Rightarrow> 'i identity list \<Rightarrow> bytes \<Rightarrow> 'w \<Rightarrow>
   (fatal option \<times> bytes) \<times> 'w" where
  "decrypt_from lib src identities out w =
     (case age_Decrypt lib src identities w of
        (Exit x, w') \<Rightarrow> ((Some x, out), w')
      | (Ret (Inl e), w') \<Rightarrow> ((Some (Errorf ''%v'' [ArgError e]), out), w')
      | (Ret (Inr r), w') \<Rightarrow>
          (case io_Copy out r of
             (out', Some e) \<Rightarrow> ((Some (Errorf ''%v'' [ArgError e]), out'), w')
           | (out', None) \<Rightarrow> ((None, out'), w')))"

section \<open>Encryption from the command line\<close>

text \<open>
  A recipient is the library's \<open>ScryptRecipient\<close>, made from a passphrase, or another
  recipient of the library.
\<close>

datatype 'r recipient = ScryptRecipient string | LibRecipient 'r

fun is_scrypt :: "'r recipient \<Rightarrow> bool" where
  "is_scrypt (ScryptRecipient p) = True"
| "is_scrypt (LibRecipient r) = False"

text \<open>
  The \<open>io.WriteCloser\<close> \<open>age.Encrypt\<close> returns, by what it writes to its destination:
  the header, written before \<open>age.Encrypt\<close> returns; the bytes \<open>io.Copy\<close> from the
  input makes it write, with the error of the copy; and the bytes \<open>Close\<close> makes it
  write after that copy, with the error of \<open>Close\<close>.
\<close>

record enc_stream =
  es_header :: bytes
  es_Copy :: "reader \<Rightarrow> bytes \<times> error option"
  es_Close :: "reader \<Rightarrow> bytes \<times> error option"

text \<open>
  The library and the helpers of the command on the encryption side, as parameters.
  \<open>armor_Write c\<close> is what the armor writer has passed on to the output once \<open>c\<close>
  has been written to it, and \<open>armor_Close c\<close> what its \<open>Close\<close> adds, with the error
  of \<open>Close\<close>. An \<open>age.Encrypt\<close> that fails has written nothing.
\<close>

record ('r, 'w) enc_library =
  age_Encrypt :: "'r recipient list \<Rightarrow> 'w \<Rightarrow> (error + enc_stream) \<times> 'w"
  age_NewScryptRecipient :: "string \<Rightarrow> error + 'r recipient"
  armor_Write :: "bytes \<Rightarrow> bytes"
  armor_Close :: "bytes \<Rightarrow> bytes \<times> error option"
  readSecret :: "string \<Rightarrow> 'w \<Rightarrow> (error + bytes) \<times> 'w"
  randomWord :: "'w \<Rightarrow> string \<times> 'w"
  printfToTerminal :: "string \<Rightarrow> string \<Rightarrow> 'w \<Rightarrow> error option \<times> 'w"

text \<open>\<open>encrypt\<close>. The deferred \<open>a.Close()\<close> runs when the function returns, not when
  \<open>errorf\<close> ends the process.\<close>

definition encrypt ::
  "('r, 'w) enc_library \<Rightarrow> 'r recipient list \<Rightarrow> reader \<Rightarrow> bytes \<Rightarrow> bool \<Rightarrow> 'w \<Rightarrow>
   (fatal option \<times> bytes) \<times> 'w" where
  "encrypt lib recipients inp out withArmor w =
     (let dst = (\<lambda>c. if withArmor then armor_Write lib c else c) in
      case age_Encrypt lib recipients w of
        (Inl e, w') \<Rightarrow> ((Some (Errorf ''%v'' [ArgError e]), out), w')
      | (Inr s, w') \<Rightarrow>
          (case es_Copy s inp of
             (c1, Some e) \<Rightarrow>
               ((Some (Errorf ''%v'' [ArgError e]), out @ dst (es_header s @ c1)), w')
           | (c1, None) \<Rightarrow>
               (case es_Close s inp of
                  (c2, Some e) \<Rightarrow>
                    ((Some (Errorf ''%v'' [ArgError e]), out @ dst (es_header s @ c1 @ c2)), w')
                | (c2, None) \<Rightarrow>
                    (let c = es_header s @ c1 @ c2 in
                     if withArmor then
                       (case armor_Close lib c of
                          (t, Some e) \<Rightarrow>
                            ((Some (Errorf ''%v'' [ArgError e]), out @ armor_Write lib c @ t), w')
                        | (t, None) \<Rightarrow> ((None, out @ armor_Write lib c @ t), w'))
                     else ((None, out @ c), w')))))"

text \<open>
  \<open>passphrasePromptForEncryption\<close>. The loop draws ten random words;
  \<open>strings.Join\<close> puts \<open>-\<close> between them.
\<close>

fun randomWords :: "('r, 'w) enc_library \<Rightarrow> nat \<Rightarrow> 'w \<Rightarrow> string list \<times> 'w" where
  "randomWords lib 0 w = ([], w)"
| "randomWords lib (Suc n) w =
     (case randomWord lib w of
        (x, w') \<Rightarrow> (case randomWords lib n w' of (xs, w'') \<Rightarrow> (x # xs, w'')))"

fun strings_Join :: "string list \<Rightarrow> string \<Rightarrow> string" where
  "strings_Join [] sep = []"
| "strings_Join [x] sep = x"
| "strings_Join (x # y # ys) sep = x @ sep @ strings_Join (y # ys) sep"

definition passphrasePromptForEncryption ::
  "('r, 'w) enc_library \<Rightarrow> 'w \<Rightarrow> (error + string) \<times> 'w" where
  "passphrasePromptForEncryption lib w =
     (case readSecret lib ''Enter passphrase (leave empty to autogenerate a secure one):'' w of
        (Inl e, w1) \<Rightarrow> (Inl (FmtError ''could not read passphrase: %v'' e), w1)
      | (Inr pass, w1) \<Rightarrow>
          if pass = [] then
            (case randomWords lib 10 w1 of
               (ws, w2) \<Rightarrow>
                 (let p = strings_Join ws ''-'' in
                  case printfToTerminal lib ''using autogenerated passphrase %q'' p w2 of
                    (Some e, w3) \<Rightarrow> (Inl (FmtError ''could not print passphrase: %v'' e), w3)
                  | (None, w3) \<Rightarrow> (Inr p, w3)))
          else
            (case readSecret lib ''Confirm passphrase:'' w1 of
               (Inl e, w2) \<Rightarrow> (Inl (FmtError ''could not read passphrase: %v'' e), w2)
             | (Inr confirm, w2) \<Rightarrow>
                 if confirm \<noteq> pass then (Inl (Error ''passphrases didn't match''), w2)
                 else (Inr pass, w2)))"

text \<open>\<open>encryptPass\<close>; \<open>testOnlyConfigureScryptIdentity\<close> does nothing.\<close>

definition encryptPass ::
  "('r, 'w) enc_library \<Rightarrow> reader \<Rightarrow> bytes \<Rightarrow> bool \<Rightarrow> 'w \<Rightarrow> (fatal option \<times> bytes) \<times> 'w" where
  "encryptPass lib inp out withArmor w =
     (case passphrasePromptForEncryption lib w of
        (Inl e, w1) \<Rightarrow> ((Some (Errorf ''%v'' [ArgError e]), out), w1)
      | (Inr pass, w1) \<Rightarrow>
          (case age_NewScryptRecipient lib pass of
             Inl e \<Rightarrow> ((Some (Errorf ''%v'' [ArgError e]), out), w1)
           | Inr r \<Rightarrow> encrypt lib [r] inp out withArmor w1))"

text \<open>
  Modelled from the spec: the validation at the start of \<open>age.Encrypt\<close>, which is not
  among the sources. Section 4.H: if any recipient is of the scrypt type, there must be
  exactly one recipient in total. The rest of \<open>age.Encrypt\<close> (file key, wrapping,
  header, STREAM writer) is the parameter \<open>build\<close>.
\<close>

definition age_Encrypt_spec ::
  "('r recipient list \<Rightarrow> 'w \<Rightarrow> (error + enc_stream) \<times> 'w) \<Rightarrow>
   'r recipient list \<Rightarrow> 'w \<Rightarrow> (error + enc_stream) \<times> 'w" where
  "age_Encrypt_spec build recipients w =
     (if list_ex is_scrypt recipients \<and> length recipients \<noteq> 1
      then (Inl (Error ''an scrypt recipient must be the only one''), w)
      else build recipients w)"

text \<open>
  An encryption library for concrete runs: its \<open>age.Encrypt\<close> validates as the spec
  says and then writes a header naming the recipient type, the plaintext as it is and
  nothing on \<open>Close\<close>; the state counts the files built. \<open>mixed_parts\<close> parses every
  header to an scrypt stanza and an X25519 stanza, and \<open>single_only E\<close> is \<open>E\<close> on one
  recipient and an error on any other number.
\<close>

definition sample_build :: "nat recipient list \<Rightarrow> nat \<Rightarrow> (error + enc_stream) \<times> nat" where
  "sample_build recipients w =
     (Inr \<lparr>es_header = (if list_ex is_scrypt recipients then ''scrypt#'' else ''X25519#''),
           es_Copy = (\<lambda>r. (rdata r, rerr r)),
           es_Close = (\<lambda>r. ([], None))\<rparr>, Suc w)"

definition mixed_parts :: "(nat, nat) age_parts" where
  "mixed_parts =
     sample_parts\<lparr>format_Parse := (\<lambda>r.
        Inr ([\<lparr>Type = ''scrypt'', Args = [], Body = []\<rparr>,
              \<lparr>Type = ''X25519'', Args = [], Body = []\<rparr>], r))\<rparr>"

definition single_only ::
  "(nat recipient list \<Rightarrow> nat \<Rightarrow> (error + enc_stream) \<times> nat) \<Rightarrow>
   nat recipient list \<Rightarrow> nat \<Rightarrow> (error + enc_stream) \<times> nat" where
  "single_only E recipients w =
     (if length recipients = 1 then E recipients w else (Inl (Error ''not called''), w))"

definition sample_enc_library :: "(nat, nat) enc_library" where
  "sample_enc_library =
     \<lparr>age_Encrypt = age_Encrypt_spec sample_build,
      age_NewScryptRecipient =
        (\<lambda>p. if p = [] then Inl (Error ''passphrase can't be empty'') else Inr (ScryptRecipient p)),
      armor_Write = (\<lambda>c. armor_Header @ c),
      armor_Close = (\<lambda>c. ([], None)),
      readSecret = (\<lambda>prompt w. (Inr ''hunter2'', w)),
      randomWord = (\<lambda>w. (''word'', w)),
      printfToTerminal = (\<lambda>fmt arg w. (None, w))\<rparr>"

section \<open>The lazily opened output file (\<open>lazyOpener\<close>)\<close>

text \<open>
  The operating system is a parameter of the model: a state \<open>'w\<close> and the three calls
  the code makes. \<open>os.Create\<close> returns a non-nil file or a non-nil error, never both,
  which is the sum type; it may change the state whether it fails or not.
\<close>

datatype os_File = File nat

record 'w os =
  os_Create :: "string \<Rightarrow> 'w \<Rightarrow> (error + os_File) \<times> 'w"
  file_Write :: "os_File \<Rightarrow> bytes \<Rightarrow> 'w \<Rightarrow> (nat \<times> error option) \<times> 'w"
  file_Close :: "os_File \<Rightarrow> 'w \<Rightarrow> error option \<times> 'w"

text \<open>
  The struct \<open>lazyOpener {name; f; err}\<close>; the fields carry a prefix because \<open>f\<close> and
  \<open>name\<close> would otherwise be constants of the whole theory.
\<close>

record lazyOpener =
  lo_name :: string
  lo_f :: "os_File option"
  lo_err :: "error option"

definition newLazyOpener :: "string \<Rightarrow> lazyOpener" where
  "newLazyOpener n = \<lparr>lo_name = n, lo_f = None, lo_err = None\<rparr>"

text \<open>
  \<open>Write\<close>: the result \<open>(n, err)\<close>, the opener after the call and the state of the
  operating system after it. A write through a nil file, which the first branch
  excludes, is \<open>os.ErrInvalid\<close> in Go.
\<close>

definition lazyOpener_Write ::
  "'w os \<Rightarrow> lazyOpener \<Rightarrow> bytes \<Rightarrow> 'w \<Rightarrow> (nat \<times> error option) \<times> lazyOpener \<times> 'w" where
  "lazyOpener_Write sys l p w =
     (let (l1, w1) =
        (if lo_f l = None \<and> lo_err l = None then
           (case os_Create sys (lo_name l) w of
              (Inr fh, w') \<Rightarrow> (l\<lparr>lo_f := Some fh, lo_err := None\<rparr>, w')
            | (Inl e, w') \<Rightarrow> (l\<lparr>lo_f := None, lo_err := Some e\<rparr>, w'))
         else (l, w))
      in case lo_err l1 of
           Some e \<Rightarrow> ((0, Some e), l1, w1)
         | None \<Rightarrow>
             (case lo_f l1 of
                Some fh \<Rightarrow> (case file_Write sys fh p w1 of (r, w2) \<Rightarrow> (r, l1, w2))
              | None \<Rightarrow> ((0, Some (Error ''invalid argument'')), l1, w1)))"

definition lazyOpener_Close :: "'w os \<Rightarrow> lazyOpener \<Rightarrow> 'w \<Rightarrow> error option \<times> 'w" where
  "lazyOpener_Close sys l w =
     (case lo_f l of Some fh \<Rightarrow> file_Close sys fh w | None \<Rightarrow> (None, w))"

text \<open>A sequence of \<open>Write\<close> calls on the same opener, with the result of each.\<close>

fun lazyOpener_Writes ::
  "'w os \<Rightarrow> lazyOpener \<Rightarrow> bytes list \<Rightarrow> 'w \<Rightarrow> (nat \<times> error option) list \<times> lazyOpener \<times> 'w" where
  "lazyOpener_Writes sys l [] w = ([], l, w)"
| "lazyOpener_Writes sys l (p # ps) w =
     (case lazyOpener_Write sys l p w of
        (r, l', w') \<Rightarrow>
          (case lazyOpener_Writes sys l' ps w' of (rs, l'', w'') \<Rightarrow> (r # rs, l'', w'')))"

text \<open>
  Two operating systems for concrete runs. The state counts the calls of \<open>os.Create\<close>.
  In \<open>denying_os\<close> every creation fails; in \<open>plain_os\<close> creation succeeds and a write
  takes all its bytes.
\<close>

definition denying_os :: "nat os" where
  "denying_os =
     \<lparr>os_Create = (\<lambda>n w. (Inl (Error ''permission denied''), Suc w)),
      file_Write = (\<lambda>fh p w. ((length p, None), w)),
      file_Close = (\<lambda>fh w. (None, w))\<rparr>"

definition plain_os :: "nat os" where
  "plain_os =
     \<lparr>os_Create = (\<lambda>n w. (Inr (File w), Suc w)),
      file_Write = (\<lambda>fh p w. ((length p, None), w)),
      file_Close = (\<lambda>fh w. (None, w))\<rparr>"

section \<open>Properties of \<open>lazyOpener\<close>\<close>

lemma lazyOpener_Write_failed:
  "lo_err l = Some e \<Longrightarrow> lazyOpener_Write sys l p w = ((0, Some e), l, w)"
  by (simp add: lazyOpener_Write_def)

lemma lazyOpener_Writes_failed:
  "lo_err l = Some e \<Longrightarrow>
   lazyOpener_Writes sys l ps w = (replicate (length ps) (0, Some e), l, w)"
  by (induction ps) (simp_all add: lazyOpener_Write_failed)

lemma lazyOpener_Write_first_failing:
  "os_Create sys n w = (Inl e, w1) \<Longrightarrow>
   lazyOpener_Write sys (newLazyOpener n) p w =
     ((0, Some e), \<lparr>lo_name = n, lo_f = None, lo_err = Some e\<rparr>, w1)"
  by (simp add: lazyOpener_Write_def newLazyOpener_def)

lemma lazyOpener_Write_first_created:
  "os_Create sys n w = (Inr fh, w1) \<Longrightarrow>
   lazyOpener_Write sys (newLazyOpener n) p w =
     (fst (file_Write sys fh p w1), \<lparr>lo_name = n, lo_f = Some fh, lo_err = None\<rparr>,
      snd (file_Write sys fh p w1))"
  by (simp add: lazyOpener_Write_def newLazyOpener_def split: prod.splits)

lemma lazyOpener_Write_opened:
  "lazyOpener_Write sys l p w = (r, l', w') \<Longrightarrow> lo_f l' \<noteq> None \<or> lo_err l' \<noteq> None"
  by (auto simp: lazyOpener_Write_def Let_def split: if_splits prod.splits sum.splits option.splits)

lemma lazyOpener_Write_no_Create:
  "lo_f l \<noteq> None \<or> lo_err l \<noteq> None \<Longrightarrow>
   lazyOpener_Write (sys\<lparr>os_Create := c\<rparr>) l p w = lazyOpener_Write sys l p w"
  by (auto simp: lazyOpener_Write_def split: option.splits)

text \<open>
  Claim C10. A \<open>lazyOpener\<close> creates its file only on the first \<open>Write\<close>:
  \<^item> closing an opener that was never written to returns nil and leaves the operating
    system's state as it was, so no file is created;
  \<^item> the first \<open>Write\<close> calls \<open>os.Create\<close> on the opener's name: when that succeeds the
    bytes go to the new file, and when it fails with \<open>e\<close> the call returns \<open>(0, e)\<close>;
  \<^item> after any \<open>Write\<close> the opener holds a file or an error, and from such an opener
    \<open>Write\<close> does the same whatever \<open>os.Create\<close> would do: it is not called again;
  \<^item> when the creation fails with \<open>e\<close>, every \<open>Write\<close> of any sequence of writes
    returns \<open>(0, e)\<close>, and the operating system's state stays the one the failed
    creation left.
\<close>

theorem lazyOpener_creates_on_first_Write:
  "lazyOpener_Close sys (newLazyOpener n) w = (None, w)
   \<and> (os_Create sys n w = (Inr fh, w1) \<longrightarrow>
        lazyOpener_Write sys (newLazyOpener n) p w =
          (fst (file_Write sys fh p w1), \<lparr>lo_name = n, lo_f = Some fh, lo_err = None\<rparr>,
           snd (file_Write sys fh p w1)))
   \<and> (lazyOpener_Write sys l p w = (r, l', w') \<longrightarrow>
        (lo_f l' \<noteq> None \<or> lo_err l' \<noteq> None)
        \<and> (\<forall>c q v. lazyOpener_Write (sys\<lparr>os_Create := c\<rparr>) l' q v = lazyOpener_Write sys l' q v))
   \<and> (os_Create sys n w = (Inl e, w1) \<longrightarrow>
        lazyOpener_Writes sys (newLazyOpener n) (p # ps) w =
          (replicate (Suc (length ps)) (0, Some e),
           \<lparr>lo_name = n, lo_f = None, lo_err = Some e\<rparr>, w1))"
proof (intro conjI impI allI)
  show "lazyOpener_Close sys (newLazyOpener n) w = (None, w)"
    by (simp add: lazyOpener_Close_def newLazyOpener_def)
next
  assume "os_Create sys n w = (Inr fh, w1)"
  then show "lazyOpener_Write sys (newLazyOpener n) p w =
      (fst (file_Write sys fh p w1), \<lparr>lo_name = n, lo_f = Some fh, lo_err = None\<rparr>,
       snd (file_Write sys fh p w1))"
    by (rule lazyOpener_Write_first_created)
next
  assume "lazyOpener_Write sys l p w = (r, l', w')"
  then show "lo_f l' \<noteq> None \<or> lo_err l' \<noteq> None"
    by (rule lazyOpener_Write_opened)
next
  fix c q v
  assume "lazyOpener_Write sys l p w = (r, l', w')"
  then have "lo_f l' \<noteq> None \<or> lo_err l' \<noteq> None"
    by (rule lazyOpener_Write_opened)
  then show "lazyOpener_Write (sys\<lparr>os_Create := c\<rparr>) l' q v = lazyOpener_Write sys l' q v"
    by (rule lazyOpener_Write_no_Create)
next
  assume c: "os_Create sys n w = (Inl e, w1)"
  show "lazyOpener_Writes sys (newLazyOpener n) (p # ps) w =
      (replicate (Suc (length ps)) (0, Some e),
       \<lparr>lo_name = n, lo_f = None, lo_err = Some e\<rparr>, w1)"
    by (simp add: lazyOpener_Write_first_failing [OF c] lazyOpener_Writes_failed)
qed

theorem lazyOpener_creates_on_first_Write_witness:
  "lazyOpener_Close denying_os (newLazyOpener ''out.age'') 0 = (None, 0)
   \<and> os_Create plain_os ''out.age'' 0 = (Inr (File 0), 1)
   \<and> lazyOpener_Write plain_os (newLazyOpener ''out.age'') ''ab'' 0 =
       ((2, None), \<lparr>lo_name = ''out.age'', lo_f = Some (File 0), lo_err = None\<rparr>, 1)
   \<and> lazyOpener_Write denying_os
         \<lparr>lo_name = ''out.age'', lo_f = Some (File 0), lo_err = None\<rparr> ''cd'' 1 =
       ((2, None), \<lparr>lo_name = ''out.age'', lo_f = Some (File 0), lo_err = None\<rparr>, 1)
   \<and> os_Create denying_os ''out.age'' 0 = (Inl (Error ''permission denied''), 1)
   \<and> lazyOpener_Writes denying_os (newLazyOpener ''out.age'') [''ab'', ''cd'', ''''] 0 =
       ([(0, Some (Error ''permission denied'')), (0, Some (Error ''permission denied'')),
         (0, Some (Error ''permission denied''))],
        \<lparr>lo_name = ''out.age'', lo_f = None, lo_err = Some (Error ''permission denied'')\<rparr>, 1)"
proof -
  have created: "os_Create plain_os ''out.age'' 0 = (Inr (File 0), 1)"
    by (simp add: plain_os_def)
  have denied: "os_Create denying_os ''out.age'' 0 = (Inl (Error ''permission denied''), 1)"
    by (simp add: denying_os_def)
  have first: "lazyOpener_Write plain_os (newLazyOpener ''out.age'') ''ab'' 0 =
       ((2, None), \<lparr>lo_name = ''out.age'', lo_f = Some (File 0), lo_err = None\<rparr>, 1)"
    using lazyOpener_creates_on_first_Write
      [of plain_os "''out.age''" 0 "File 0" 1 "''ab''"] created
    by (simp add: plain_os_def)
  have later: "lazyOpener_Write (plain_os\<lparr>os_Create := os_Create denying_os\<rparr>)
         \<lparr>lo_name = ''out.age'', lo_f = Some (File 0), lo_err = None\<rparr> ''cd'' 1 =
       lazyOpener_Write plain_os
         \<lparr>lo_name = ''out.age'', lo_f = Some (File 0), lo_err = None\<rparr> ''cd'' 1"
    using lazyOpener_creates_on_first_Write
      [of plain_os "''out.age''" 0 "File 0" 1 "''ab''" "newLazyOpener ''out.age''"
          "(2, None)" "\<lparr>lo_name = ''out.age'', lo_f = Some (File 0), lo_err = None\<rparr>" 1]
      first
    by blast
  have same: "plain_os\<lparr>os_Create := os_Create denying_os\<rparr> = denying_os"
    by (simp add: plain_os_def denying_os_def)
  have writes: "lazyOpener_Writes denying_os (newLazyOpener ''out.age'') [''ab'', ''cd'', ''''] 0 =
       ([(0, Some (Error ''permission denied'')), (0, Some (Error ''permission denied'')),
         (0, Some (Error ''permission denied''))],
        \<lparr>lo_name = ''out.age'', lo_f = None, lo_err = Some (Error ''permission denied'')\<rparr>, 1)"
    using lazyOpener_creates_on_first_Write
      [of denying_os "''out.age''" 0 _ 1 "''ab''" _ _ _ _ "Error ''permission denied''"
          "[''cd'', '''']"] denied
    by (simp add: numeral_2_eq_2)
  have closed: "lazyOpener_Close denying_os (newLazyOpener ''out.age'') 0 = (None, 0)"
    using lazyOpener_creates_on_first_Write [of denying_os "''out.age''" 0] by blast
  have after: "lazyOpener_Write plain_os
         \<lparr>lo_name = ''out.age'', lo_f = Some (File 0), lo_err = None\<rparr> ''cd'' 1 =
       ((2, None), \<lparr>lo_name = ''out.age'', lo_f = Some (File 0), lo_err = None\<rparr>, 1)"
    by (simp add: lazyOpener_Write_def plain_os_def)
  from closed created first later same after denied writes show ?thesis
    by simp
qed

section \<open>Properties of decryption from the command line\<close>

lemma Peek_prefix: "Peek rr (length p) = p \<longleftrightarrow> prefix p (rdata rr)"
  unfolding Peek_def
  by (metis append_eq_conv_conj prefix_def take_is_prefix)

lemma length_crlfMangledIntro: "length crlfMangledIntro = 22"
  by (simp add: crlfMangledIntro_def)

lemma length_utf16MangledIntro: "length utf16MangledIntro = 22"
  by (simp add: utf16MangledIntro_def)

lemma Peek_utf16: "Peek rr (length crlfMangledIntro) = utf16MangledIntro \<longleftrightarrow> prefix utf16MangledIntro (rdata rr)"
  using Peek_prefix [of rr utf16MangledIntro]
  by (simp add: length_crlfMangledIntro length_utf16MangledIntro)

lemma decrypt_unfold:
  "decrypt lib identities inp out w =
     (if mangled_intro inp then ((Some invalid_header_intro, out), w)
      else case age_Decrypt lib (decrypt_source lib inp) identities w of
             (Exit x, w') \<Rightarrow> ((Some x, out), w')
           | (Ret (Inl e), w') \<Rightarrow> ((Some (Errorf ''%v'' [ArgError e]), out), w')
           | (Ret (Inr r), w') \<Rightarrow>
               (case rerr r of
                  Some e \<Rightarrow> ((Some (Errorf ''%v'' [ArgError e]), out @ rdata r), w')
                | None \<Rightarrow> ((None, out @ rdata r), w')))"
  unfolding decrypt_def Let_def Peek_prefix Peek_utf16 mangled_intro_def decrypt_source_def io_Copy_def
  by (simp split: prod.splits proc.splits sum.splits option.splits)

lemma armored_not_mangled: "prefix armor_Header (rdata inp) \<Longrightarrow> \<not> mangled_intro inp"
  by (auto simp: mangled_intro_def armor_Header_def crlfMangledIntro_def utf16MangledIntro_def prefix_def)

text \<open>
  Claim C9. \<open>decrypt\<close> rejects an input that starts with the CRLF-mangled or the
  UTF-16-mangled intro with "invalid header intro": for every library the output and
  the state outside are untouched, so \<open>age.Decrypt\<close> has not been attempted. Every
  other input goes to armor detection and the resulting reader to \<open>age.Decrypt\<close>,
  whose result decides the rest.
\<close>

theorem decrypt_rejects_mangled_intro:
  "(prefix crlfMangledIntro (rdata inp) \<or> prefix utf16MangledIntro (rdata inp) \<longrightarrow>
      decrypt lib identities inp out w = ((Some invalid_header_intro, out), w))
   \<and> (\<not> prefix crlfMangledIntro (rdata inp) \<and> \<not> prefix utf16MangledIntro (rdata inp) \<longrightarrow>
      decrypt lib identities inp out w =
        (case age_Decrypt lib (decrypt_source lib inp) identities w of
           (Exit x, w') \<Rightarrow> ((Some x, out), w')
         | (Ret (Inl e), w') \<Rightarrow> ((Some (Errorf ''%v'' [ArgError e]), out), w')
         | (Ret (Inr r), w') \<Rightarrow>
             (case rerr r of
                Some e \<Rightarrow> ((Some (Errorf ''%v'' [ArgError e]), out @ rdata r), w')
              | None \<Rightarrow> ((None, out @ rdata r), w'))))"
  by (simp add: decrypt_unfold mangled_intro_def)

lemma sample_Decrypt_X25519:
  "age_Decrypt sample_library \<lparr>rdata = ''X25519#hello'', rerr = None\<rparr> [LibIdentity 7] 0 =
     (Ret (Inr \<lparr>rdata = ''hello'', rerr = None\<rparr>), 1)"
  by (simp add: sample_library_def age_Decrypt_spec_def sample_parts_def)

theorem decrypt_rejects_mangled_intro_witness:
  "prefix crlfMangledIntro (rdata \<lparr>rdata = crlfMangledIntro @ ''X25519#hello'', rerr = None\<rparr>)
   \<and> decrypt sample_library [LibIdentity 7]
        \<lparr>rdata = crlfMangledIntro @ ''X25519#hello'', rerr = None\<rparr> ''out'' 0 =
      ((Some invalid_header_intro, ''out''), 0)
   \<and> prefix utf16MangledIntro (rdata \<lparr>rdata = utf16MangledIntro @ ''rest'', rerr = None\<rparr>)
   \<and> decrypt sample_library [LibIdentity 7]
        \<lparr>rdata = utf16MangledIntro @ ''rest'', rerr = None\<rparr> ''out'' 0 =
      ((Some invalid_header_intro, ''out''), 0)
   \<and> \<not> prefix crlfMangledIntro (rdata \<lparr>rdata = ''X25519#hello'', rerr = None\<rparr>)
   \<and> \<not> prefix utf16MangledIntro (rdata \<lparr>rdata = ''X25519#hello'', rerr = None\<rparr>)
   \<and> decrypt sample_library [LibIdentity 7] \<lparr>rdata = ''X25519#hello'', rerr = None\<rparr> ''out'' 0 =
      ((None, ''outhello''), 1)"
proof -
  let ?m = "\<lparr>rdata = crlfMangledIntro @ ''X25519#hello'', rerr = None\<rparr>"
  let ?u = "\<lparr>rdata = utf16MangledIntro @ ''rest'', rerr = None\<rparr>"
  let ?g = "\<lparr>rdata = ''X25519#hello'', rerr = None\<rparr>"
  have m: "prefix crlfMangledIntro (rdata ?m)" by simp
  have u: "prefix utf16MangledIntro (rdata ?u)" by simp
  have g: "\<not> prefix crlfMangledIntro (rdata ?g)" "\<not> prefix utf16MangledIntro (rdata ?g)"
    by (simp_all add: crlfMangledIntro_def utf16MangledIntro_def)
  have src: "decrypt_source sample_library ?g = ?g"
    by (simp add: decrypt_source_def armor_Header_def)
  have 1: "decrypt sample_library [LibIdentity 7] ?m ''out'' 0 = ((Some invalid_header_intro, ''out''), 0)"
    using decrypt_rejects_mangled_intro [of ?m sample_library "[LibIdentity 7]" "''out''" 0] m
    by blast
  have 2: "decrypt sample_library [LibIdentity 7] ?u ''out'' 0 = ((Some invalid_header_intro, ''out''), 0)"
    using decrypt_rejects_mangled_intro [of ?u sample_library "[LibIdentity 7]" "''out''" 0] u
    by blast
  have 3: "decrypt sample_library [LibIdentity 7] ?g ''out'' 0 = ((None, ''outhello''), 1)"
    using decrypt_rejects_mangled_intro [of ?g sample_library "[LibIdentity 7]" "''out''" 0] g
    by (simp add: src sample_Decrypt_X25519)
  from m u g 1 2 3 show ?thesis by blast
qed

lemma flag_identities_extends:
  "flag_identities lib flags acc w = (Ret identities, w') \<Longrightarrow> \<exists>rest. identities = acc @ rest"
proof (induction flags arbitrary: acc w)
  case Nil
  then show ?case by simp
next
  case (Cons fl flags)
  obtain t v where fl: "fl = IdentityFlag t v" by (cases fl)
  show ?case
  proof (cases "t = ''i''")
    case True
    with Cons.prems fl obtain ids w1 where
      "flag_identities lib flags (acc @ map LibIdentity ids) w1 = (Ret identities, w')"
      by (auto split: prod.splits sum.splits)
    from Cons.IH [OF this] show ?thesis by auto
  next
    case False
    show ?thesis
    proof (cases "t = ''j''")
      case True
      with Cons.prems fl \<open>t \<noteq> ''i''\<close> obtain i w1 where
        "flag_identities lib flags (acc @ [LibIdentity i]) w1 = (Ret identities, w')"
        by (auto split: prod.splits sum.splits)
      from Cons.IH [OF this] show ?thesis by auto
    next
      case False
      with Cons.prems fl \<open>t \<noteq> ''i''\<close> have
        "flag_identities lib flags acc w = (Ret identities, w')"
        by simp
      from Cons.IH [OF this] show ?thesis .
    qed
  qed
qed

lemma rejectScryptIdentity_Unwrap_other:
  "\<not> (length stanzas = 1 \<and> Type (hd stanzas) = ''scrypt'') \<Longrightarrow>
   rejectScryptIdentity_Unwrap stanzas = Ret (Inl ErrIncorrectIdentity)"
  by (cases stanzas) (auto simp: rejectScryptIdentity_Unwrap_def)

lemma rejectScryptIdentity_Unwrap_scrypt:
  "Type s = ''scrypt'' \<Longrightarrow> rejectScryptIdentity_Unwrap [s] = Exit passphrase_with_identities"
  by (simp add: rejectScryptIdentity_Unwrap_def)

lemma age_Decrypt_spec_rejects:
  assumes "format_Parse P src = Inr ([s], payload)" and "Type s = ''scrypt''"
  shows "age_Decrypt_spec P src (RejectScryptIdentity # rest) w = (Exit passphrase_with_identities, w)"
  using assms by (simp add: age_Decrypt_spec_def rejectScryptIdentity_Unwrap_scrypt)

lemma passphrase_encrypted_parse:
  assumes "passphrase_encrypted lib P inp"
  obtains s payload where "format_Parse P (decrypt_source lib inp) = Inr ([s], payload)"
    and "Type s = ''scrypt''" and "\<not> mangled_intro inp"
  using assms unfolding passphrase_encrypted_def
  by (auto split: sum.splits prod.splits list.splits)

lemma decryptNotPass_passphrase_encrypted:
  assumes D: "age_Decrypt lib = age_Decrypt_spec P"
    and pe: "passphrase_encrypted lib P inp"
  shows "decryptNotPass lib flags inp out w =
     (case flag_identities lib flags [RejectScryptIdentity] w of
        (Exit x, w') \<Rightarrow> ((Some x, out), w')
      | (Ret identities, w') \<Rightarrow> ((Some passphrase_with_identities, out), w'))"
proof (cases "flag_identities lib flags [RejectScryptIdentity] w")
  case (Pair r w')
  show ?thesis
  proof (cases r)
    case (Exit x)
    with Pair show ?thesis by (simp add: decryptNotPass_def)
  next
    case (Ret identities)
    with Pair flag_identities_extends [of lib flags "[RejectScryptIdentity]" w identities w']
    obtain rest where ids: "identities = RejectScryptIdentity # rest" by auto
    from pe obtain s payload where
      p: "format_Parse P (decrypt_source lib inp) = Inr ([s], payload)" "Type s = ''scrypt''"
      and nm: "\<not> mangled_intro inp"
      by (rule passphrase_encrypted_parse)
    have "decrypt lib identities inp out w' = ((Some passphrase_with_identities, out), w')"
      by (simp add: decrypt_unfold nm D ids age_Decrypt_spec_rejects [OF p])
    with Pair Ret show ?thesis by (simp add: decryptNotPass_def)
  qed
qed

text \<open>
  Claim C8. \<open>rejectScryptIdentity.Unwrap\<close> returns \<open>ErrIncorrectIdentity\<close> for every
  stanza list that is not exactly one stanza of type \<open>scrypt\<close>; the identities
  \<open>decryptNotPass\<close> builds from the flags start with \<open>rejectScryptIdentity\<close>; and on
  a passphrase-encrypted file \<open>decryptNotPass\<close> always ends the process: with the
  error of reading a flag's identities, or else with the message of
  \<open>rejectScryptIdentity\<close>, the state outside being the one reading the flags left, so
  that \<open>Unwrap\<close> of no supplied identity has run.
\<close>

theorem rejectScryptIdentity_first:
  "(\<not> (\<exists>s. stanzas = [s] \<and> Type s = ''scrypt'') \<longrightarrow>
      rejectScryptIdentity_Unwrap stanzas = Ret (Inl ErrIncorrectIdentity))
   \<and> (flag_identities lib flags [RejectScryptIdentity] w = (Ret identities, w1) \<longrightarrow>
        (\<exists>rest. identities = RejectScryptIdentity # rest))
   \<and> (age_Decrypt lib = age_Decrypt_spec P \<and> passphrase_encrypted lib P inp \<longrightarrow>
        decryptNotPass lib flags inp out w =
          (case flag_identities lib flags [RejectScryptIdentity] w of
             (Exit x, w') \<Rightarrow> ((Some x, out), w')
           | (Ret identities, w') \<Rightarrow> ((Some passphrase_with_identities, out), w')))"
proof (intro conjI impI)
  assume n: "\<not> (\<exists>s. stanzas = [s] \<and> Type s = ''scrypt'')"
  have "\<not> (length stanzas = 1 \<and> Type (hd stanzas) = ''scrypt'')"
  proof
    assume a: "length stanzas = 1 \<and> Type (hd stanzas) = ''scrypt''"
    then obtain s where "stanzas = [s]" by (cases stanzas) auto
    with a n show False by simp
  qed
  then show "rejectScryptIdentity_Unwrap stanzas = Ret (Inl ErrIncorrectIdentity)"
    by (rule rejectScryptIdentity_Unwrap_other)
next
  assume "flag_identities lib flags [RejectScryptIdentity] w = (Ret identities, w1)"
  from flag_identities_extends [OF this]
  show "\<exists>rest. identities = RejectScryptIdentity # rest" by simp
next
  assume "age_Decrypt lib = age_Decrypt_spec P \<and> passphrase_encrypted lib P inp"
  then show "decryptNotPass lib flags inp out w =
          (case flag_identities lib flags [RejectScryptIdentity] w of
             (Exit x, w') \<Rightarrow> ((Some x, out), w')
           | (Ret identities, w') \<Rightarrow> ((Some passphrase_with_identities, out), w'))"
    by (simp add: decryptNotPass_passphrase_encrypted)
qed

lemma sample_flags:
  "flag_identities sample_library [IdentityFlag ''i'' ''key.txt'', IdentityFlag ''j'' ''yubikey'']
     [RejectScryptIdentity] 0 =
   (Ret [RejectScryptIdentity, LibIdentity 1, LibIdentity 2, LibIdentity 3], 0)"
  by (simp add: sample_library_def)

lemma sample_passphrase_encrypted:
  "passphrase_encrypted sample_library sample_parts \<lparr>rdata = ''scrypt#payload'', rerr = None\<rparr>"
  by (simp add: passphrase_encrypted_def mangled_intro_def decrypt_source_def sample_parts_def
      crlfMangledIntro_def utf16MangledIntro_def armor_Header_def)

theorem rejectScryptIdentity_first_witness:
  "\<not> (\<exists>s. [\<lparr>Type = ''X25519'', Args = [], Body = []\<rparr>] = [s] \<and> Type s = ''scrypt'')
   \<and> rejectScryptIdentity_Unwrap [\<lparr>Type = ''X25519'', Args = [], Body = []\<rparr>] =
       Ret (Inl ErrIncorrectIdentity)
   \<and> flag_identities sample_library [IdentityFlag ''i'' ''key.txt'', IdentityFlag ''j'' ''yubikey'']
       [RejectScryptIdentity] 0 =
       (Ret [RejectScryptIdentity, LibIdentity 1, LibIdentity 2, LibIdentity 3], 0)
   \<and> age_Decrypt sample_library = age_Decrypt_spec sample_parts
   \<and> passphrase_encrypted sample_library sample_parts \<lparr>rdata = ''scrypt#payload'', rerr = None\<rparr>
   \<and> decryptNotPass sample_library [IdentityFlag ''i'' ''key.txt'', IdentityFlag ''j'' ''yubikey'']
       \<lparr>rdata = ''scrypt#payload'', rerr = None\<rparr> [] 0 =
       ((Some passphrase_with_identities, []), 0)"
proof -
  let ?flags = "[IdentityFlag ''i'' ''key.txt'', IdentityFlag ''j'' ''yubikey'']"
  let ?inp = "\<lparr>rdata = ''scrypt#payload'', rerr = None\<rparr>"
  let ?st = "[\<lparr>Type = ''X25519'', Args = [], Body = []\<rparr>]"
  have a: "\<not> (\<exists>s. ?st = [s] \<and> Type s = ''scrypt'')" by simp
  have D: "age_Decrypt sample_library = age_Decrypt_spec sample_parts"
    by (simp add: sample_library_def)
  note t = rejectScryptIdentity_first
    [of ?st sample_library ?flags 0
        "[RejectScryptIdentity, LibIdentity 1, LibIdentity 2, LibIdentity 3]" 0
        sample_parts ?inp "[]"]
  from t a have 1: "rejectScryptIdentity_Unwrap ?st = Ret (Inl ErrIncorrectIdentity)"
    by blast
  from t D sample_passphrase_encrypted
  have "decryptNotPass sample_library ?flags ?inp [] 0 =
      (case flag_identities sample_library ?flags [RejectScryptIdentity] 0 of
         (Exit x, w') \<Rightarrow> ((Some x, []), w')
       | (Ret identities, w') \<Rightarrow> ((Some passphrase_with_identities, []), w'))"
    by blast
  then have 3: "decryptNotPass sample_library ?flags ?inp [] 0 =
      ((Some passphrase_with_identities, []), 0)"
    unfolding sample_flags by simp
  from a 1 sample_flags D sample_passphrase_encrypted 3 show ?thesis by blast
qed

section \<open>Properties of the armor codec and of armor detection\<close>

lemma index_of_nth: "distinct xs \<Longrightarrow> i < length xs \<Longrightarrow> index_of (xs ! i) xs = Some i"
proof (induction xs arbitrary: i)
  case Nil
  then show ?case by simp
next
  case (Cons y ys)
  show ?case
  proof (cases i)
    case 0
    then show ?thesis by simp
  next
    case (Suc j)
    with Cons.prems have "j < length ys" "distinct ys" "ys ! j \<noteq> y"
      by auto
    with Cons.IH [of j] Suc show ?thesis by simp
  qed
qed

lemma length_b64_alphabet: "length b64_alphabet = 64"
  by (simp add: b64_alphabet_def)

lemma distinct_b64_alphabet: "distinct b64_alphabet"
  by (simp add: b64_alphabet_def)

lemma b64_value_char: "i < 64 \<Longrightarrow> b64_value (b64_char i) = Some i"
  unfolding b64_value_def b64_char_def
  by (rule index_of_nth [OF distinct_b64_alphabet]) (simp add: length_b64_alphabet)

lemma b64_char_in_alphabet: "i < 64 \<Longrightarrow> b64_char i \<in> set b64_alphabet"
  unfolding b64_char_def by (simp add: length_b64_alphabet)

lemma pad_not_in_alphabet: "CHR ''='' \<notin> set b64_alphabet"
  by (simp add: b64_alphabet_def)

lemma dash_not_in_alphabet: "CHR ''-'' \<notin> set b64_alphabet"
  by (simp add: b64_alphabet_def)

lemma newline_not_in_alphabet: "newline \<notin> set b64_alphabet"
  by (simp add: b64_alphabet_def newline_def)

lemma b64_char_not_pad: "i < 64 \<Longrightarrow> b64_char i \<noteq> CHR ''=''"
  using b64_char_in_alphabet pad_not_in_alphabet by metis

lemma sextet_bounds:
  fixes x y z :: nat
  assumes "x < 256" "y < 256" "z < 256"
  shows "x div 4 < 64" "x mod 4 * 16 + y div 16 < 64" "y mod 16 * 4 + z div 64 < 64"
    "z mod 64 < 64" "x mod 4 * 16 < 64" "y mod 16 * 4 < 64"
  using assms by simp_all


lemma sextet_1: fixes x y :: nat assumes "y < 256"
  shows "x div 4 * 4 + (x mod 4 * 16 + y div 16) div 16 = x"
proof -
  from assms have "y div 16 < 16" by simp
  then have "(x mod 4 * 16 + y div 16) div 16 = x mod 4" by simp
  then show ?thesis by simp
qed

lemma sextet_2: fixes x y z :: nat assumes "y < 256" "z < 256"
  shows "(x mod 4 * 16 + y div 16) mod 16 * 16 + (y mod 16 * 4 + z div 64) div 4 = y"
proof -
  from assms have a: "y div 16 < 16" and b: "z div 64 < 4" by simp_all
  from a have "(x mod 4 * 16 + y div 16) mod 16 = y div 16" by simp
  moreover from b have "(y mod 16 * 4 + z div 64) div 4 = y mod 16" by simp
  ultimately show ?thesis by simp
qed

lemma sextet_3: fixes y z :: nat assumes "z < 256"
  shows "(y mod 16 * 4 + z div 64) mod 4 * 64 + z mod 64 = z"
proof -
  from assms have b: "z div 64 < 4" by simp
  then have "(y mod 16 * 4 + z div 64) mod 4 = z div 64" by simp
  then show ?thesis by simp
qed

lemma sextet_4: fixes x :: nat
  shows "x div 4 * 4 + (x mod 4 * 16) div 16 = x" "(x mod 4 * 16) mod 16 = 0"
  by simp_all

lemma sextet_5: fixes x y :: nat assumes "y < 256"
  shows "(x mod 4 * 16 + y div 16) mod 16 * 16 + (y mod 16 * 4) div 4 = y" "(y mod 16 * 4) mod 4 = 0"
proof -
  from assms have a: "y div 16 < 16" by simp
  from a have "(x mod 4 * 16 + y div 16) mod 16 = y div 16" by simp
  then show "(x mod 4 * 16 + y div 16) mod 16 * 16 + (y mod 16 * 4) div 4 = y" by simp
  show "(y mod 16 * 4) mod 4 = 0" by simp
qed


lemma decode_quad_encode:
  fixes a b c :: char
  defines "x \<equiv> (of_char a :: nat)" and "y \<equiv> (of_char b :: nat)" and "z \<equiv> (of_char c :: nat)"
  shows "decode_quad (b64_char (x div 4)) (b64_char (x mod 4 * 16 + y div 16))
           (b64_char (y mod 16 * 4 + z div 64)) (b64_char (z mod 64)) = Some [a, b, c]"
proof -
  have lt: "x < 256" "y < 256" "z < 256" by (simp_all add: x_def y_def z_def)
  note bs = sextet_bounds [OF lt]
  have v: "b64_value (b64_char (x div 4)) = Some (x div 4)"
    "b64_value (b64_char (x mod 4 * 16 + y div 16)) = Some (x mod 4 * 16 + y div 16)"
    "b64_value (b64_char (y mod 16 * 4 + z div 64)) = Some (y mod 16 * 4 + z div 64)"
    "b64_value (b64_char (z mod 64)) = Some (z mod 64)"
    by (rule b64_value_char, rule bs)+
  have c: "char_of x = a" "char_of y = b" "char_of z = c" by (simp_all add: x_def y_def z_def)
  show ?thesis
    by (simp only: decode_quad_def v prod.case option.case sextet_1 [OF lt(2)]
        sextet_2 [OF lt(2,3)] sextet_3 [OF lt(3)] c)
qed

lemma decode_last_quad:
  "c4 \<noteq> CHR ''='' \<Longrightarrow> decode_last c1 c2 c3 c4 = decode_quad c1 c2 c3 c4"
  by (simp add: decode_last_def)

lemma decode_last_encode1:
  fixes a :: char
  defines "x \<equiv> (of_char a :: nat)"
  shows "decode_last (b64_char (x div 4)) (b64_char (x mod 4 * 16)) CHR ''='' CHR ''='' = Some [a]"
proof -
  have lt: "x < 256" by (simp add: x_def)
  note bs = sextet_bounds [OF lt lt lt]
  have v: "b64_value (b64_char (x div 4)) = Some (x div 4)"
    "b64_value (b64_char (x mod 4 * 16)) = Some (x mod 4 * 16)"
    by (rule b64_value_char, rule bs)+
  have c: "char_of x = a" by (simp add: x_def)
  show ?thesis
    by (simp only: decode_last_def v prod.case option.case sextet_4 c if_True refl)
qed

lemma decode_last_encode2:
  fixes a b :: char
  defines "x \<equiv> (of_char a :: nat)" and "y \<equiv> (of_char b :: nat)"
  shows "decode_last (b64_char (x div 4)) (b64_char (x mod 4 * 16 + y div 16))
           (b64_char (y mod 16 * 4)) CHR ''='' = Some [a, b]"
proof -
  have lt: "x < 256" "y < 256" by (simp_all add: x_def y_def)
  note bs = sextet_bounds [OF lt lt(2)]
  have v: "b64_value (b64_char (x div 4)) = Some (x div 4)"
    "b64_value (b64_char (x mod 4 * 16 + y div 16)) = Some (x mod 4 * 16 + y div 16)"
    "b64_value (b64_char (y mod 16 * 4)) = Some (y mod 16 * 4)"
    by (rule b64_value_char, rule bs)+
  have np: "b64_char (y mod 16 * 4) = CHR ''='' \<longleftrightarrow> False"
    using b64_char_not_pad [OF bs(6)] by simp
  have c: "char_of x = a" "char_of y = b" by (simp_all add: x_def y_def)
  show ?thesis
    by (simp only: decode_last_def v prod.case option.case sextet_1 [OF lt(2)]
        sextet_5 [OF lt(2)] c np if_True if_False refl)
qed

lemma base64_encode_Nil_iff: "base64_encode b = [] \<longleftrightarrow> b = []"
  by (induction b rule: base64_encode.induct) (simp_all add: Let_def)

lemma base64_roundtrip: "base64_decode (base64_encode b) = Some b"
proof (induction b rule: base64_encode.induct)
  case 1
  show ?case by simp
next
  case (2 a)
  show ?case by (simp add: Let_def decode_last_encode1)
next
  case (3 a b)
  show ?case by (simp add: Let_def decode_last_encode2)
next
  case (4 a b c rest)
  have lt: "(of_char c :: nat) < 256" by simp
  have np: "b64_char (of_char c mod 64) \<noteq> CHR ''=''"
    by (rule b64_char_not_pad) simp
  show ?case
  proof (cases "rest = []")
    case True
    then show ?thesis
      by (simp add: Let_def decode_last_quad [OF np] decode_quad_encode)
  next
    case False
    then have "base64_encode rest \<noteq> []" by (simp add: base64_encode_Nil_iff)
    with 4 show ?thesis
      by (simp add: Let_def decode_quad_encode)
  qed
qed

lemma base64_encode_chars: "set (base64_encode b) \<subseteq> insert CHR ''='' (set b64_alphabet)"
proof (induction b rule: base64_encode.induct)
  case 1
  show ?case by simp
next
  case (2 a)
  have lt: "(of_char a :: nat) < 256" by simp
  note bs = sextet_bounds [OF lt lt lt]
  show ?case by (simp add: Let_def b64_char_in_alphabet bs)
next
  case (3 a b)
  have lt: "(of_char a :: nat) < 256" "(of_char b :: nat) < 256" by simp_all
  note bs = sextet_bounds [OF lt lt(2)]
  show ?case by (simp add: Let_def b64_char_in_alphabet bs)
next
  case (4 a b c rest)
  have lt: "(of_char a :: nat) < 256" "(of_char b :: nat) < 256" "(of_char c :: nat) < 256"
    by simp_all
  note bs = sextet_bounds [OF lt]
  from 4 show ?case by (simp add: Let_def b64_char_in_alphabet bs)
qed


declare wrap64.simps [simp del]

lemma concat_wrap64: "concat (wrap64 s) = s"
proof (induction s rule: wrap64.induct)
  case (1 s)
  show ?case
  proof (cases "s = []")
    case True
    then show ?thesis by (simp add: wrap64.simps)
  next
    case False
    with 1 have "concat (wrap64 (drop 64 s)) = drop 64 s" by simp
    with False show ?thesis by (subst wrap64.simps) simp
  qed
qed

lemma wrap64_line: "l \<in> set (wrap64 s) \<Longrightarrow> length l \<le> 64 \<and> set l \<subseteq> set s"
proof (induction s rule: wrap64.induct)
  case (1 s)
  show ?case
  proof (cases "s = []")
    case True
    with "1.prems" show ?thesis by (simp add: wrap64.simps)
  next
    case False
    with "1.prems" have "l = take 64 s \<or> l \<in> set (wrap64 (drop 64 s))"
      by (subst (asm) wrap64.simps) simp
    then show ?thesis
    proof
      assume "l = take 64 s"
      then show ?thesis by (auto dest: in_set_takeD)
    next
      assume "l \<in> set (wrap64 (drop 64 s))"
      with "1.IH" False have "length l \<le> 64 \<and> set l \<subseteq> set (drop 64 s)" by simp
      then show ?thesis by (auto dest: in_set_dropD)
    qed
  qed
qed

lemma split_lines_line:
  "newline \<notin> set l \<Longrightarrow> split_lines (l @ newline # rest) = l # split_lines rest"
  by (induction l) auto

lemma split_lines_concat:
  "(\<And>l. l \<in> set ls \<Longrightarrow> newline \<notin> set l) \<Longrightarrow>
   split_lines (concat (map (\<lambda>l. l @ [newline]) ls)) = ls @ [[]]"
  by (induction ls) (simp_all add: split_lines_line)

lemma armor_body_line:
  assumes "l \<in> set (wrap64 (base64_encode b))"
  shows "length l \<le> 64" and "newline \<notin> set l" and "l \<noteq> armor_Footer"
proof -
  from wrap64_line [OF assms] base64_encode_chars [of b]
  have len: "length l \<le> 64" and chars: "set l \<subseteq> insert CHR ''='' (set b64_alphabet)"
    by auto
  show "length l \<le> 64" by (rule len)
  from chars newline_not_in_alphabet show "newline \<notin> set l"
    by (auto simp: newline_def)
  have "CHR ''-'' \<in> set armor_Footer" by (simp add: armor_Footer_def)
  moreover from chars dash_not_in_alphabet have "CHR ''-'' \<notin> set l" by auto
  ultimately show "l \<noteq> armor_Footer" by auto
qed

lemma split_lines_armor:
  "split_lines (armor b) = armor_Header # wrap64 (base64_encode b) @ [armor_Footer, []]"
proof -
  let ?ls = "armor_Header # wrap64 (base64_encode b) @ [armor_Footer]"
  have nl: "newline \<notin> set l" if "l \<in> set ?ls" for l
    using that armor_body_line(2) [of l b]
    by (auto simp: armor_Header_def armor_Footer_def newline_def)
  have "split_lines (concat (map (\<lambda>l. l @ [newline]) ?ls)) = ?ls @ [[]]"
    by (rule split_lines_concat) (rule nl)
  then show ?thesis
    by (simp add: armor_def)
qed

lemma dearmor_armor: "dearmor (armor b) = Inr b"
proof -
  let ?body = "wrap64 (base64_encode b)"
  have nf: "\<And>l. l \<in> set ?body \<Longrightarrow> l \<noteq> armor_Footer"
    by (rule armor_body_line(3))
  have tw: "takeWhile (\<lambda>l. l \<noteq> armor_Footer) (?body @ [armor_Footer, []]) = ?body"
    using nf by (simp add: takeWhile_append2)
  have dw: "dropWhile (\<lambda>l. l \<noteq> armor_Footer) (?body @ [armor_Footer, []]) = [armor_Footer, []]"
    using nf by (simp add: dropWhile_append2)
  have short: "\<not> list_ex (\<lambda>l. length l > 64) ?body"
    by (auto simp: list_ex_iff dest: armor_body_line(1))
  show ?thesis
    by (simp add: dearmor_def split_lines_armor tw dw short concat_wrap64 base64_roundtrip)
qed


lemma decrypt_eq_decrypt_from:
  "decrypt lib identities inp out w =
     (if mangled_intro inp then ((Some invalid_header_intro, out), w)
      else decrypt_from lib (decrypt_source lib inp) identities out w)"
  by (simp add: decrypt_unfold decrypt_from_def io_Copy_def
      split: prod.splits proc.splits sum.splits option.splits)

lemma sample_mangled_passed:
  "decrypt_from sample_library \<lparr>rdata = crlfMangledIntro @ ''#hello'', rerr = None\<rparr>
     [LibIdentity 7] [] 0 = ((None, ''hello''), 1)"
  by (simp add: decrypt_from_def sample_library_def age_Decrypt_spec_def sample_parts_def
      io_Copy_def crlfMangledIntro_def)

lemma sample_mangled_rejected:
  "decrypt sample_library [LibIdentity 7] \<lparr>rdata = crlfMangledIntro @ ''#hello'', rerr = None\<rparr>
     [] 0 = ((Some invalid_header_intro, []), 0)"
  by (simp add: decrypt_eq_decrypt_from mangled_intro_def)

lemma sample_mangled_unarmored:
  "\<not> prefix armor_Header (rdata \<lparr>rdata = crlfMangledIntro @ ''#hello'', rerr = None\<rparr>)"
  by (simp add: armor_Header_def crlfMangledIntro_def)

text \<open>
  Claim C2, as stated: dearmoring the armored form of \<open>b\<close> gives \<open>b\<close>, and \<open>decrypt\<close>
  hands the armor reader to \<open>age.Decrypt\<close> when the input starts with the BEGIN marker
  and the input itself otherwise. The second half fails: an input that starts with the
  CRLF-mangled intro does not start with the BEGIN marker, and it is not passed on but
  rejected.
\<close>

theorem decrypt_passes_unarmored_counterexample:
  "\<not> (\<forall>(lib :: (nat, nat) library) identities inp out w.
        \<not> prefix armor_Header (rdata inp) \<longrightarrow>
        decrypt lib identities inp out w = decrypt_from lib inp identities out w)"
proof
  assume a: "\<forall>(lib :: (nat, nat) library) identities inp out w.
        \<not> prefix armor_Header (rdata inp) \<longrightarrow>
        decrypt lib identities inp out w = decrypt_from lib inp identities out w"
  let ?m = "\<lparr>rdata = crlfMangledIntro @ ''#hello'', rerr = None\<rparr>"
  from a sample_mangled_unarmored
  have "decrypt sample_library [LibIdentity 7] ?m [] 0 =
      decrypt_from sample_library ?m [LibIdentity 7] [] 0"
    by blast
  then show False
    by (simp add: sample_mangled_passed sample_mangled_rejected)
qed

text \<open>
  Claim C2, amended. Dearmoring the armored form of \<open>b\<close> gives \<open>b\<close>. On \<open>decrypt\<close>, an
  input that starts with the BEGIN marker is never one with a mangled intro, and the
  armor reader over it goes to \<open>age.Decrypt\<close>; an input that does not start with the
  BEGIN marker goes to \<open>age.Decrypt\<close> unchanged, unless it starts with one of the two
  mangled intros, in which case it is rejected with "invalid header intro".
\<close>

theorem armor_roundtrip_and_detection:
  "dearmor (armor b) = Inr b
   \<and> (prefix armor_Header (rdata inp) \<longrightarrow>
        decrypt lib identities inp out w =
          decrypt_from lib (armor_NewReader lib inp) identities out w)
   \<and> (\<not> prefix armor_Header (rdata inp) \<and> \<not> mangled_intro inp \<longrightarrow>
        decrypt lib identities inp out w = decrypt_from lib inp identities out w)
   \<and> (\<not> prefix armor_Header (rdata inp) \<and> mangled_intro inp \<longrightarrow>
        decrypt lib identities inp out w = ((Some invalid_header_intro, out), w))"
  by (simp add: dearmor_armor decrypt_eq_decrypt_from decrypt_source_def armored_not_mangled)

lemma sample_armored_input:
  "decrypt_from sample_library
     (armor_NewReader sample_library \<lparr>rdata = armor_Header @ ''X25519#hello'', rerr = None\<rparr>)
     [LibIdentity 7] [] 0 = ((None, ''hello''), 1)"
  by (simp add: decrypt_from_def sample_library_def age_Decrypt_spec_def sample_parts_def
      io_Copy_def)

lemma sample_plain_input:
  "decrypt_from sample_library \<lparr>rdata = ''X25519#hello'', rerr = None\<rparr> [LibIdentity 7] [] 0 =
     ((None, ''hello''), 1)"
  by (simp add: decrypt_from_def sample_library_def age_Decrypt_spec_def sample_parts_def
      io_Copy_def)

theorem armor_roundtrip_and_detection_witness:
  "dearmor (armor ''age'') = Inr ''age''
   \<and> prefix armor_Header (rdata \<lparr>rdata = armor_Header @ ''X25519#hello'', rerr = None\<rparr>)
   \<and> decrypt sample_library [LibIdentity 7]
        \<lparr>rdata = armor_Header @ ''X25519#hello'', rerr = None\<rparr> [] 0 = ((None, ''hello''), 1)
   \<and> \<not> prefix armor_Header (rdata \<lparr>rdata = ''X25519#hello'', rerr = None\<rparr>)
   \<and> \<not> mangled_intro \<lparr>rdata = ''X25519#hello'', rerr = None\<rparr>
   \<and> decrypt sample_library [LibIdentity 7] \<lparr>rdata = ''X25519#hello'', rerr = None\<rparr> [] 0 =
       ((None, ''hello''), 1)
   \<and> \<not> prefix armor_Header (rdata \<lparr>rdata = crlfMangledIntro @ ''#hello'', rerr = None\<rparr>)
   \<and> mangled_intro \<lparr>rdata = crlfMangledIntro @ ''#hello'', rerr = None\<rparr>
   \<and> decrypt sample_library [LibIdentity 7]
        \<lparr>rdata = crlfMangledIntro @ ''#hello'', rerr = None\<rparr> [] 0 =
       ((Some invalid_header_intro, []), 0)"
proof -
  let ?a = "\<lparr>rdata = armor_Header @ ''X25519#hello'', rerr = None\<rparr>"
  let ?p = "\<lparr>rdata = ''X25519#hello'', rerr = None\<rparr>"
  let ?m = "\<lparr>rdata = crlfMangledIntro @ ''#hello'', rerr = None\<rparr>"
  have a: "prefix armor_Header (rdata ?a)" by simp
  have p: "\<not> prefix armor_Header (rdata ?p)" "\<not> mangled_intro ?p"
    by (simp_all add: armor_Header_def mangled_intro_def crlfMangledIntro_def
        utf16MangledIntro_def)
  have m: "mangled_intro ?m" by (simp add: mangled_intro_def)
  have 0: "dearmor (armor ''age'') = Inr ''age''"
    by (rule armor_roundtrip_and_detection [THEN conjunct1])
  have 1: "decrypt sample_library [LibIdentity 7] ?a [] 0 = ((None, ''hello''), 1)"
    using armor_roundtrip_and_detection [of "''age''" ?a sample_library "[LibIdentity 7]" "[]" 0] a
    by (simp add: sample_armored_input)
  have 2: "decrypt sample_library [LibIdentity 7] ?p [] 0 = ((None, ''hello''), 1)"
    using armor_roundtrip_and_detection [of "''age''" ?p sample_library "[LibIdentity 7]" "[]" 0] p
    by (simp add: sample_plain_input)
  have 3: "decrypt sample_library [LibIdentity 7] ?m [] 0 = ((Some invalid_header_intro, []), 0)"
    using armor_roundtrip_and_detection [of "''age''" ?m sample_library "[LibIdentity 7]" "[]" 0]
      sample_mangled_unarmored m
    by blast
  from 0 a 1 p 2 sample_mangled_unarmored m 3 show ?thesis by blast
qed

section \<open>Properties of scrypt exclusivity\<close>

lemma randomWords_age_Encrypt:
  "randomWords (lib\<lparr>age_Encrypt := E\<rparr>) n w = randomWords lib n w"
  by (induction n arbitrary: w) simp_all

lemma passphrasePromptForEncryption_age_Encrypt:
  "passphrasePromptForEncryption (lib\<lparr>age_Encrypt := E\<rparr>) w = passphrasePromptForEncryption lib w"
  by (simp add: passphrasePromptForEncryption_def randomWords_age_Encrypt Let_def
      split: prod.splits sum.splits option.splits)

lemma encrypt_age_Encrypt:
  "E recipients w = E' recipients w \<Longrightarrow>
   encrypt (lib\<lparr>age_Encrypt := E\<rparr>) recipients inp out a w =
   encrypt (lib\<lparr>age_Encrypt := E'\<rparr>) recipients inp out a w"
  by (simp add: encrypt_def Let_def split: prod.splits sum.splits option.splits)

lemma encryptPass_single_recipient:
  assumes "\<And>rs v. length rs = 1 \<Longrightarrow> E rs v = E' rs v"
  shows "encryptPass (lib\<lparr>age_Encrypt := E\<rparr>) inp out a w =
         encryptPass (lib\<lparr>age_Encrypt := E'\<rparr>) inp out a w"
proof -
  have "encrypt (lib\<lparr>age_Encrypt := E\<rparr>) [r] inp out a v =
        encrypt (lib\<lparr>age_Encrypt := E'\<rparr>) [r] inp out a v" for r v
    by (rule encrypt_age_Encrypt) (simp add: assms)
  then show ?thesis
    by (simp add: encryptPass_def passphrasePromptForEncryption_age_Encrypt
        split: prod.splits sum.splits)
qed

lemma encryptPass_encrypt:
  "passphrasePromptForEncryption lib w = (Inr pass, w1) \<Longrightarrow>
   age_NewScryptRecipient lib pass = Inr r \<Longrightarrow>
   encryptPass lib inp out a w = encrypt lib [r] inp out a w1"
  by (simp add: encryptPass_def)

lemma age_Encrypt_spec_mixed:
  "list_ex is_scrypt recipients \<Longrightarrow> 1 < length recipients \<Longrightarrow>
   age_Encrypt_spec build recipients w =
     (Inl (Error ''an scrypt recipient must be the only one''), w)"
  by (simp add: age_Encrypt_spec_def)

lemma encrypt_mixed:
  "list_ex is_scrypt recipients \<Longrightarrow> 1 < length recipients \<Longrightarrow>
   encrypt (lib\<lparr>age_Encrypt := age_Encrypt_spec build\<rparr>) recipients inp out a w =
     ((Some (Errorf ''%v'' [ArgError (Error ''an scrypt recipient must be the only one'')]), out), w)"
  by (simp add: encrypt_def age_Encrypt_spec_mixed)

lemma age_Decrypt_spec_mixed:
  "format_Parse P src = Inr (stanzas, payload) \<Longrightarrow>
   list_ex (\<lambda>s. Type s = ''scrypt'') stanzas \<Longrightarrow> 1 < length stanzas \<Longrightarrow>
   age_Decrypt_spec P src identities w =
     (Ret (Inl (Error ''an scrypt stanza must be the only stanza'')), w)"
  by (simp add: age_Decrypt_spec_def)

lemma decrypt_from_mixed:
  "format_Parse P src = Inr (stanzas, payload) \<Longrightarrow>
   list_ex (\<lambda>s. Type s = ''scrypt'') stanzas \<Longrightarrow> 1 < length stanzas \<Longrightarrow>
   decrypt_from (lib\<lparr>age_Decrypt := age_Decrypt_spec P\<rparr>) src identities out w =
     ((Some (Errorf ''%v'' [ArgError (Error ''an scrypt stanza must be the only stanza'')]), out), w)"
  by (simp add: decrypt_from_def age_Decrypt_spec_mixed)

text \<open>
  Claim C3. The library's \<open>Encrypt\<close> fails on every recipient list that holds an
  scrypt recipient and more than one recipient, and \<open>encrypt\<close> then ends the process
  with that error, nothing written. The library's \<open>Decrypt\<close> fails on every header
  that holds an scrypt stanza and more than one stanza, and \<open>decrypt\<close> then ends the
  process with that error. \<open>encryptPass\<close> encrypts to the one recipient made from the
  passphrase: its result is that of \<open>encrypt\<close> on that singleton list, and it is the
  same for any two \<open>age.Encrypt\<close> that agree on lists of one recipient.
\<close>

theorem scrypt_exclusivity:
  "(list_ex is_scrypt recipients \<and> 1 < length recipients \<longrightarrow>
      age_Encrypt_spec build recipients w =
        (Inl (Error ''an scrypt recipient must be the only one''), w)
      \<and> encrypt (elib\<lparr>age_Encrypt := age_Encrypt_spec build\<rparr>) recipients inp out a w =
        ((Some (Errorf ''%v'' [ArgError (Error ''an scrypt recipient must be the only one'')]),
          out), w))
   \<and> (format_Parse P src = Inr (stanzas, payload)
        \<and> list_ex (\<lambda>s. Type s = ''scrypt'') stanzas \<and> 1 < length stanzas \<longrightarrow>
      age_Decrypt_spec P src identities v =
        (Ret (Inl (Error ''an scrypt stanza must be the only stanza'')), v)
      \<and> decrypt_from (dlib\<lparr>age_Decrypt := age_Decrypt_spec P\<rparr>) src identities out v =
        ((Some (Errorf ''%v'' [ArgError (Error ''an scrypt stanza must be the only stanza'')]),
          out), v))
   \<and> (passphrasePromptForEncryption elib w = (Inr pass, w1)
        \<and> age_NewScryptRecipient elib pass = Inr r \<longrightarrow>
      encryptPass elib inp out a w = encrypt elib [r] inp out a w1)
   \<and> ((\<forall>rs u. length rs = 1 \<longrightarrow> E rs u = E' rs u) \<longrightarrow>
      encryptPass (elib\<lparr>age_Encrypt := E\<rparr>) inp out a w =
      encryptPass (elib\<lparr>age_Encrypt := E'\<rparr>) inp out a w)"
proof (intro conjI impI)
  assume "list_ex is_scrypt recipients \<and> 1 < length recipients"
  then show "age_Encrypt_spec build recipients w =
        (Inl (Error ''an scrypt recipient must be the only one''), w)"
    and "encrypt (elib\<lparr>age_Encrypt := age_Encrypt_spec build\<rparr>) recipients inp out a w =
        ((Some (Errorf ''%v'' [ArgError (Error ''an scrypt recipient must be the only one'')]),
          out), w)"
    by (simp_all add: age_Encrypt_spec_mixed encrypt_mixed)
next
  assume "format_Parse P src = Inr (stanzas, payload)
        \<and> list_ex (\<lambda>s. Type s = ''scrypt'') stanzas \<and> 1 < length stanzas"
  then show "age_Decrypt_spec P src identities v =
        (Ret (Inl (Error ''an scrypt stanza must be the only stanza'')), v)"
    and "decrypt_from (dlib\<lparr>age_Decrypt := age_Decrypt_spec P\<rparr>) src identities out v =
        ((Some (Errorf ''%v'' [ArgError (Error ''an scrypt stanza must be the only stanza'')]),
          out), v)"
    by (simp_all add: age_Decrypt_spec_mixed decrypt_from_mixed)
next
  assume "passphrasePromptForEncryption elib w = (Inr pass, w1)
        \<and> age_NewScryptRecipient elib pass = Inr r"
  then show "encryptPass elib inp out a w = encrypt elib [r] inp out a w1"
    by (simp add: encryptPass_encrypt)
next
  assume "\<forall>rs u. length rs = 1 \<longrightarrow> E rs u = E' rs u"
  then show "encryptPass (elib\<lparr>age_Encrypt := E\<rparr>) inp out a w =
      encryptPass (elib\<lparr>age_Encrypt := E'\<rparr>) inp out a w"
    by (intro encryptPass_single_recipient) simp
qed

lemma sample_prompt:
  "passphrasePromptForEncryption sample_enc_library 0 = (Inr ''hunter2'', 0)"
  by (simp add: passphrasePromptForEncryption_def sample_enc_library_def)

lemma sample_encrypt_pass:
  "encrypt sample_enc_library [ScryptRecipient ''hunter2''] \<lparr>rdata = ''hello'', rerr = None\<rparr>
     [] False 0 = ((None, ''scrypt#hello''), 1)"
  by (simp add: encrypt_def sample_enc_library_def age_Encrypt_spec_def sample_build_def)

lemma sample_enc_library_update:
  "sample_enc_library\<lparr>age_Encrypt := age_Encrypt_spec sample_build\<rparr> = sample_enc_library"
  by (simp add: sample_enc_library_def)

theorem scrypt_exclusivity_witness:
  "list_ex is_scrypt [ScryptRecipient ''hunter2'', LibRecipient (1::nat)]
   \<and> 1 < length [ScryptRecipient ''hunter2'', LibRecipient (1::nat)]
   \<and> encrypt sample_enc_library [ScryptRecipient ''hunter2'', LibRecipient 1]
        \<lparr>rdata = ''hello'', rerr = None\<rparr> [] False 0 =
       ((Some (Errorf ''%v'' [ArgError (Error ''an scrypt recipient must be the only one'')]), []), 0)
   \<and> format_Parse mixed_parts \<lparr>rdata = ''x'', rerr = None\<rparr> =
       Inr ([\<lparr>Type = ''scrypt'', Args = [], Body = []\<rparr>,
             \<lparr>Type = ''X25519'', Args = [], Body = []\<rparr>], \<lparr>rdata = ''x'', rerr = None\<rparr>)
   \<and> age_Decrypt_spec mixed_parts \<lparr>rdata = ''x'', rerr = None\<rparr> [LibIdentity 1] 0 =
       (Ret (Inl (Error ''an scrypt stanza must be the only stanza'')), 0)
   \<and> passphrasePromptForEncryption sample_enc_library 0 = (Inr ''hunter2'', 0)
   \<and> age_NewScryptRecipient sample_enc_library ''hunter2'' = Inr (ScryptRecipient ''hunter2'')
   \<and> encryptPass sample_enc_library \<lparr>rdata = ''hello'', rerr = None\<rparr> [] False 0 =
       ((None, ''scrypt#hello''), 1)
   \<and> encryptPass (sample_enc_library\<lparr>age_Encrypt := single_only (age_Encrypt sample_enc_library)\<rparr>)
        \<lparr>rdata = ''hello'', rerr = None\<rparr> [] False 0 =
       ((None, ''scrypt#hello''), 1)"
proof -
  let ?rs = "[ScryptRecipient ''hunter2'', LibRecipient (1::nat)]"
  let ?inp = "\<lparr>rdata = ''hello'', rerr = None\<rparr>"
  let ?src = "\<lparr>rdata = ''x'', rerr = None\<rparr>"
  let ?st = "[\<lparr>Type = ''scrypt'', Args = [], Body = []\<rparr>,
              \<lparr>Type = ''X25519'', Args = [], Body = []\<rparr>]"
  let ?E = "age_Encrypt sample_enc_library"
  note t = scrypt_exclusivity
    [of ?rs sample_build 0 sample_enc_library ?inp "[]" False mixed_parts ?src ?st ?src
        "[LibIdentity 1]" 0 sample_library "''hunter2''" 0 "ScryptRecipient ''hunter2''"
        "single_only ?E" ?E]
  have a: "list_ex is_scrypt ?rs" "1 < length ?rs" by simp_all
  have b: "format_Parse mixed_parts ?src = Inr (?st, ?src)"
    by (simp add: mixed_parts_def)
  have b': "list_ex (\<lambda>s. Type s = ''scrypt'') ?st" "1 < length ?st" by simp_all
  have c: "age_NewScryptRecipient sample_enc_library ''hunter2'' = Inr (ScryptRecipient ''hunter2'')"
    by (simp add: sample_enc_library_def)
  have d: "\<forall>rs u. length rs = 1 \<longrightarrow> single_only ?E rs u = ?E rs u"
    by (simp add: single_only_def)
  from t a have 1: "encrypt sample_enc_library ?rs ?inp [] False 0 =
       ((Some (Errorf ''%v'' [ArgError (Error ''an scrypt recipient must be the only one'')]), []), 0)"
    unfolding sample_enc_library_update by blast
  from t b b' have 2: "age_Decrypt_spec mixed_parts ?src [LibIdentity 1] 0 =
       (Ret (Inl (Error ''an scrypt stanza must be the only stanza'')), 0)"
    by blast
  from t sample_prompt c have "encryptPass sample_enc_library ?inp [] False 0 =
      encrypt sample_enc_library [ScryptRecipient ''hunter2''] ?inp [] False 0"
    by blast
  then have 3: "encryptPass sample_enc_library ?inp [] False 0 = ((None, ''scrypt#hello''), 1)"
    by (simp only: sample_encrypt_pass)
  from t d have "encryptPass (sample_enc_library\<lparr>age_Encrypt := single_only ?E\<rparr>) ?inp [] False 0 =
      encryptPass (sample_enc_library\<lparr>age_Encrypt := ?E\<rparr>) ?inp [] False 0"
    by blast
  moreover have "sample_enc_library\<lparr>age_Encrypt := ?E\<rparr> = sample_enc_library"
    by simp
  ultimately have 4: "encryptPass (sample_enc_library\<lparr>age_Encrypt := single_only ?E\<rparr>)
      ?inp [] False 0 = ((None, ''scrypt#hello''), 1)"
    using 3 by simp
  from a 1 b 2 sample_prompt c 3 4 show ?thesis by blast
qed

end
